theory Spec2Isabelle
  imports Main "HOL-Library.Word" "HOL-Library.Sublist" "HOL-Library.AList"
begin

section \<open>Policies of a channel configuration (pkg/config/policies.go)\<close>

text \<open>
  A shallow embedding of \<^verbatim>\<open>pkg/config/policies.go\<close>.

  \<^item> A Go pointer that may be \<^verbatim>\<open>nil\<close> is an \<open>option\<close>; dereferencing \<open>None\<close> is the
    run-time panic of Go, the value \<open>Panic\<close> of the type \<open>error\<close>.
  \<^item> A Go \<^verbatim>\<open>error\<close> value is its message, \<open>Error msg\<close>.
  \<^item> A Go map that the code ranges over is an association list: the order of the list
    is the order in which \<^verbatim>\<open>range\<close> visits the entries (Go leaves it unspecified, so a
    statement for every list covers every order). Reading is \<open>map_of\<close>, storing is
    \<open>AList.update\<close>, \<^verbatim>\<open>delete\<close> is \<open>AList.delete\<close>.
  \<^item> A function that mutates the configuration through a pointer returns the
    configuration after the call together with the error it returns.
  \<^item> \<^verbatim>\<open>int32\<close> is \<open>32 word\<close>, read with \<open>sint\<close>.
\<close>

subsection \<open>Errors\<close>

datatype error = Error string | Panic

type_synonym int32 = "32 word"

subsection \<open>Go library functions on strings\<close>

text \<open>\<^verbatim>\<open>strconv.Itoa\<close>: the decimal rendering of an integer.\<close>

definition digitChar :: "nat \<Rightarrow> char" where
  "digitChar d = ''0123456789'' ! d"

fun decimal :: "nat \<Rightarrow> string" where
  "decimal n = (if n < 10 then [digitChar n] else decimal (n div 10) @ [digitChar (n mod 10)])"

declare decimal.simps [simp del]

definition Itoa :: "int \<Rightarrow> string" where
  "Itoa i = (if i < 0 then CHR ''-'' # decimal (nat (- i)) else decimal (nat i))"

text \<open>
  \<^verbatim>\<open>strings.ToUpper\<close> and \<^verbatim>\<open>strings.ToLower\<close>, on ASCII letters. The program applies them
  to gate keywords, enum names and decimal numbers only, which are ASCII.
\<close>

definition upperChar :: "char \<Rightarrow> char" where
  "upperChar c = (let n = (of_char c :: nat) in if 97 \<le> n \<and> n \<le> 122 then char_of (n - 32) else c)"

definition lowerChar :: "char \<Rightarrow> char" where
  "lowerChar c = (let n = (of_char c :: nat) in if 65 \<le> n \<and> n \<le> 90 then char_of (n + 32) else c)"

definition ToUpper :: "string \<Rightarrow> string" where
  "ToUpper s = map upperChar s"

definition ToLower :: "string \<Rightarrow> string" where
  "ToLower s = map lowerChar s"

text \<open>\<^verbatim>\<open>strings.Join\<close>.\<close>

fun Join :: "string list \<Rightarrow> string \<Rightarrow> string" where
  "Join [] sep = []"
| "Join [x] sep = x"
| "Join (x # y # ys) sep = x @ sep @ Join (y # ys) sep"

subsection \<open>Constants declared outside this file\<close>

text \<open>
  Modelled from the spec: the group keys, policy keys and policy kinds are constants of
  package \<^verbatim>\<open>config\<close> declared in a file other than \<^verbatim>\<open>policies.go\<close>; the spec names them
  "Consortiums", "Orderer", "Application", \<^verbatim>\<open>Admins\<close>, \<^verbatim>\<open>Readers\<close>, \<^verbatim>\<open>Writers\<close>,
  \<^verbatim>\<open>BlockValidation\<close>, and the kinds ImplicitMeta and Signature.
\<close>

definition ConsortiumsGroupKey :: string where "ConsortiumsGroupKey = ''Consortiums''"
definition OrdererGroupKey :: string where "OrdererGroupKey = ''Orderer''"
definition ApplicationGroupKey :: string where "ApplicationGroupKey = ''Application''"
definition AdminsPolicyKey :: string where "AdminsPolicyKey = ''Admins''"
definition ReadersPolicyKey :: string where "ReadersPolicyKey = ''Readers''"
definition WritersPolicyKey :: string where "WritersPolicyKey = ''Writers''"
definition BlockValidationPolicyKey :: string where "BlockValidationPolicyKey = ''BlockValidation''"
definition ImplicitMetaPolicyType :: string where "ImplicitMetaPolicyType = ''ImplicitMeta''"
definition SignaturePolicyType :: string where "SignaturePolicyType = ''Signature''"

text \<open>
  The gate keywords of package \<^verbatim>\<open>policydsl\<close> and the enum values of the protobuf packages
  \<^verbatim>\<open>common\<close> and \<^verbatim>\<open>msp\<close> (external libraries).
\<close>

definition GateAnd :: string where "GateAnd = ''And''"
definition GateOr :: string where "GateOr = ''Or''"
definition GateOutOf :: string where "GateOutOf = ''OutOf''"

definition Policy_SIGNATURE :: int32 where "Policy_SIGNATURE = 1"
definition Policy_IMPLICIT_META :: int32 where "Policy_IMPLICIT_META = 3"

definition ImplicitMetaPolicy_ANY :: int32 where "ImplicitMetaPolicy_ANY = 0"
definition ImplicitMetaPolicy_ALL :: int32 where "ImplicitMetaPolicy_ALL = 1"
definition ImplicitMetaPolicy_MAJORITY :: int32 where "ImplicitMetaPolicy_MAJORITY = 2"

definition MSPPrincipal_ROLE :: int32 where "MSPPrincipal_ROLE = 0"
definition MSPPrincipal_ORGANIZATION_UNIT :: int32 where "MSPPrincipal_ORGANIZATION_UNIT = 1"
definition MSPPrincipal_IDENTITY :: int32 where "MSPPrincipal_IDENTITY = 2"
definition MSPPrincipal_ANONYMITY :: int32 where "MSPPrincipal_ANONYMITY = 3"
definition MSPPrincipal_COMBINED :: int32 where "MSPPrincipal_COMBINED = 4"

text \<open>
  The \<^verbatim>\<open>String()\<close> method of the protobuf enum \<^verbatim>\<open>MSPRole_MSPRoleType\<close>: the name of a
  declared value, the decimal number of any other.
\<close>

definition MSPRoleType_String :: "int32 \<Rightarrow> string" where
  "MSPRoleType_String r =
     (if r = 0 then ''MEMBER''
      else if r = 1 then ''ADMIN''
      else if r = 2 then ''CLIENT''
      else if r = 3 then ''PEER''
      else if r = 4 then ''ORDERER''
      else Itoa (sint r))"

subsection \<open>Data\<close>

text \<open>\<^verbatim>\<open>config.Policy\<close>: the kind and the textual rule.\<close>

record Policy =
  Type :: string
  Rule :: string

text \<open>\<^verbatim>\<open>cb.Policy\<close> (fields \<^verbatim>\<open>Type\<close>, \<^verbatim>\<open>Value\<close>) and \<^verbatim>\<open>cb.ConfigPolicy\<close> (fields \<^verbatim>\<open>ModPolicy\<close>,
  \<^verbatim>\<open>Policy\<close>; the version is not used here).\<close>

record cb_Policy =
  PType :: int32
  PValue :: string

record ConfigPolicy =
  ModPolicy :: string
  CPolicy :: "cb_Policy option"

text \<open>\<^verbatim>\<open>cb.ImplicitMetaPolicy\<close> (fields \<^verbatim>\<open>SubPolicy\<close>, \<^verbatim>\<open>Rule\<close>).\<close>

record ImplicitMetaPolicy =
  SubPolicy :: string
  IRule :: int32

text \<open>\<^verbatim>\<open>mb.MSPRole\<close> and \<^verbatim>\<open>mb.MSPPrincipal\<close>.\<close>

record MSPRole =
  MspIdentifier :: string
  Role :: int32

record MSPPrincipal =
  PrincipalClassification :: int32
  Principal :: string

text \<open>
  \<^verbatim>\<open>cb.SignaturePolicy\<close>: its field \<^verbatim>\<open>Type\<close> is an interface holding a
  \<^verbatim>\<open>SignaturePolicy_SignedBy\<close> with the index, a \<^verbatim>\<open>SignaturePolicy_NOutOf_\<close> with a pointer
  to the threshold and the rules (\<open>NOutOfNil\<close> when that pointer is nil), or nothing
  (\<open>TypeNil\<close>). The rules are pointers to signature policies.
\<close>

datatype SignaturePolicy =
    SignedBy int32
  | NOutOf int32 "SignaturePolicy option list"
  | NOutOfNil
  | TypeNil

text \<open>\<^verbatim>\<open>cb.SignaturePolicyEnvelope\<close> (fields \<^verbatim>\<open>Rule\<close>, \<^verbatim>\<open>Identities\<close>; the version is not used).\<close>

record SignaturePolicyEnvelope =
  SRule :: "SignaturePolicy option"
  Identities :: "MSPPrincipal option list"

text \<open>
  \<^verbatim>\<open>cb.ConfigGroup\<close>: the child groups and the policies (the other fields are not used
  here). The map of groups is only read, and a nil map reads as an empty one. The map
  of policies is also written, and storing into a nil map panics: it is \<open>None\<close> when
  nil.
\<close>

datatype ConfigGroup =
  ConfigGroup (Groups: "(string \<times> ConfigGroup option) list")
              (Policies: "(string \<times> ConfigPolicy option) list option")

record Config =
  ChannelGroup :: "ConfigGroup option"

subsection \<open>The collaborators\<close>

text \<open>
  The binary codec (\<^verbatim>\<open>proto.Marshal\<close>, \<^verbatim>\<open>proto.Unmarshal\<close> at the three message types the
  program decodes) and the compilers of textual rules (\<^verbatim>\<open>policydsl.FromString\<close>, and
  \<^verbatim>\<open>implicitMetaFromString\<close> of this package, declared in another file) are parameters
  of the model. Each returns the message of its error or its result.
\<close>

record externals =
  implicitMetaFromString :: "string \<Rightarrow> string + ImplicitMetaPolicy"
  FromString :: "string \<Rightarrow> string + SignaturePolicyEnvelope"
  MarshalImplicitMeta :: "ImplicitMetaPolicy \<Rightarrow> string + string"
  MarshalSignature :: "SignaturePolicyEnvelope \<Rightarrow> string + string"
  UnmarshalImplicitMeta :: "string \<Rightarrow> string + ImplicitMetaPolicy"
  UnmarshalSignature :: "string \<Rightarrow> string + SignaturePolicyEnvelope"
  UnmarshalMSPRole :: "string \<Rightarrow> string + MSPRole"

subsection \<open>Formatters\<close>

definition implicitMetaToString :: "ImplicitMetaPolicy \<Rightarrow> error + string" where
  "implicitMetaToString imp =
     (if IRule imp = ImplicitMetaPolicy_ANY then Inr (''ANY'' @ '' '' @ SubPolicy imp)
      else if IRule imp = ImplicitMetaPolicy_ALL then Inr (''ALL'' @ '' '' @ SubPolicy imp)
      else if IRule imp = ImplicitMetaPolicy_MAJORITY then Inr (''MAJORITY'' @ '' '' @ SubPolicy imp)
      else Inl (Error (''unknown implicit meta policy rule type '' @ Itoa (sint (IRule imp)))))"

definition mspPrincipalToString :: "externals \<Rightarrow> MSPPrincipal option \<Rightarrow> error + string" where
  "mspPrincipalToString X princ =
     (case princ of
        None \<Rightarrow> Inl Panic
      | Some p \<Rightarrow>
          if PrincipalClassification p = MSPPrincipal_ROLE then
            (case UnmarshalMSPRole X (Principal p) of
               Inl err \<Rightarrow> Inl (Error err)
             | Inr role \<Rightarrow>
                 Inr ([CHR 0x27] @ MspIdentifier role @ ''.'' @ ToLower (MSPRoleType_String (Role role))
                      @ [CHR 0x27]))
          else if PrincipalClassification p = MSPPrincipal_ORGANIZATION_UNIT then Inr []
          else if PrincipalClassification p = MSPPrincipal_IDENTITY then Inr []
          else if PrincipalClassification p = MSPPrincipal_ANONYMITY then Inr []
          else if PrincipalClassification p = MSPPrincipal_COMBINED then Inr []
          else Inl (Error (''unknown MSP principal classiciation ''
                           @ Itoa (sint (PrincipalClassification p)))))"

text \<open>
  \<^verbatim>\<open>signaturePolicyToString\<close>; \<open>subPolicies\<close> is its loop over the rules, which appends each
  rendering to \<^verbatim>\<open>policies\<close> and returns at the first error. \<open>of_nat (length rules)\<close> is
  the conversion \<^verbatim>\<open>int32(len(nOutOf.Rules))\<close>. Indexing \<^verbatim>\<open>IDs\<close> out of range panics.
\<close>

fun signaturePolicyToString :: "SignaturePolicy option \<Rightarrow> string list \<Rightarrow> error + string"
  and subPolicies :: "SignaturePolicy option list \<Rightarrow> string list \<Rightarrow> string list \<Rightarrow> error + string list"
where
  "signaturePolicyToString None IDs = Inl Panic"
| "signaturePolicyToString (Some (NOutOf n rules)) IDs =
     (let gate = GateOutOf;
          gate = (if n = 1 then GateOr else gate);
          gate = (if n = of_nat (length rules) then GateAnd else gate);
          policies = (if gate = GateOutOf then [Itoa (sint n)] else [])
      in case subPolicies rules IDs policies of
           Inl e \<Rightarrow> Inl e
         | Inr policies \<Rightarrow> Inr (ToUpper gate @ ''('' @ Join policies '', '' @ '')''))"
| "signaturePolicyToString (Some NOutOfNil) IDs = Inl Panic"
| "signaturePolicyToString (Some (SignedBy i)) IDs =
     (if 0 \<le> sint i \<and> nat (sint i) < length IDs then Inr (IDs ! nat (sint i)) else Inl Panic)"
| "signaturePolicyToString (Some TypeNil) IDs = Inl (Error ''unknown signature policy type <nil>'')"
| "subPolicies [] IDs policies = Inr policies"
| "subPolicies (rule # rules) IDs policies =
     (case signaturePolicyToString rule IDs of
        Inl e \<Rightarrow> Inl e
      | Inr subPolicy \<Rightarrow> subPolicies rules IDs (policies @ [subPolicy]))"

text \<open>\<^verbatim>\<open>signatureMetaToString\<close>; \<open>roles_loop\<close> is its loop over the identities.\<close>

fun roles_loop :: "externals \<Rightarrow> MSPPrincipal option list \<Rightarrow> string list \<Rightarrow> error + string list" where
  "roles_loop X [] roles = Inr roles"
| "roles_loop X (ident # idents) roles =
     (case mspPrincipalToString X ident of
        Inl e \<Rightarrow> Inl e
      | Inr role \<Rightarrow> roles_loop X idents (roles @ [role]))"

definition signatureMetaToString :: "externals \<Rightarrow> SignaturePolicyEnvelope \<Rightarrow> error + string" where
  "signatureMetaToString X sig =
     (case roles_loop X (Identities sig) [] of
        Inl e \<Rightarrow> Inl e
      | Inr roles \<Rightarrow> signaturePolicyToString (SRule sig) roles)"

subsection \<open>Extracting the policies of a group\<close>

text \<open>
  \<^verbatim>\<open>getPolicies\<close>; \<open>getPolicies_loop\<close> is its loop, \<open>p\<close> the map built so far. An entry
  of the map is a pointer to a \<^verbatim>\<open>cb.ConfigPolicy\<close>, whose field \<^verbatim>\<open>Policy\<close> is a pointer
  again. Ranging over a nil map visits nothing.
\<close>

fun getPolicies_loop ::
  "externals \<Rightarrow> (string \<times> ConfigPolicy option) list \<Rightarrow> (string \<rightharpoonup> Policy) \<Rightarrow> error + (string \<rightharpoonup> Policy)"
where
  "getPolicies_loop X [] p = Inr p"
| "getPolicies_loop X ((name, policy) # rest) p =
     (case policy of
        None \<Rightarrow> Inl Panic
      | Some cp \<Rightarrow>
          (case CPolicy cp of
             None \<Rightarrow> Inl Panic
           | Some pol \<Rightarrow>
               if PType pol = Policy_IMPLICIT_META then
                 (case UnmarshalImplicitMeta X (PValue pol) of
                    Inl err \<Rightarrow> Inl (Error err)
                  | Inr imp \<Rightarrow>
                      (case implicitMetaToString imp of
                         Inl e \<Rightarrow> Inl e
                       | Inr rule \<Rightarrow>
                           getPolicies_loop X rest
                             (p(name \<mapsto> \<lparr>Type = ImplicitMetaPolicyType, Rule = rule\<rparr>))))
               else if PType pol = Policy_SIGNATURE then
                 (case UnmarshalSignature X (PValue pol) of
                    Inl err \<Rightarrow> Inl (Error err)
                  | Inr sp \<Rightarrow>
                      (case signatureMetaToString X sp of
                         Inl e \<Rightarrow> Inl e
                       | Inr rule \<Rightarrow>
                           getPolicies_loop X rest
                             (p(name \<mapsto> \<lparr>Type = SignaturePolicyType, Rule = rule\<rparr>))))
               else Inl (Error (''unknown policy type: '' @ Itoa (sint (PType pol))))))"

definition getPolicies ::
  "externals \<Rightarrow> (string \<times> ConfigPolicy option) list option \<Rightarrow> error + (string \<rightharpoonup> Policy)"
where
  "getPolicies X policies =
     (case policies of
        None \<Rightarrow> Inr Map.empty
      | Some ps \<Rightarrow> getPolicies_loop X ps Map.empty)"

subsection \<open>Navigation\<close>

text \<open>
  \<open>groupsOf g\<close> is the field selection \<^verbatim>\<open>g.Groups\<close> through the pointer \<open>g\<close>, which panics
  when \<open>g\<close> is nil; \<open>policiesOf\<close> is \<^verbatim>\<open>g.Policies\<close>. \<open>index m k\<close> is the two-valued map
  read \<^verbatim>\<open>v, ok := m[k]\<close>: an absent key gives the nil pointer and \<open>False\<close>.
\<close>

definition groupsOf :: "ConfigGroup option \<Rightarrow> error + (string \<times> ConfigGroup option) list" where
  "groupsOf g = (case g of None \<Rightarrow> Inl Panic | Some cg \<Rightarrow> Inr (Groups cg))"

definition policiesOf ::
  "ConfigGroup option \<Rightarrow> error + (string \<times> ConfigPolicy option) list option"
where
  "policiesOf g = (case g of None \<Rightarrow> Inl Panic | Some cg \<Rightarrow> Inr (Policies cg))"

definition index :: "(string \<times> 'a option) list \<Rightarrow> string \<Rightarrow> 'a option \<times> bool" where
  "index m k = (case map_of m k of None \<Rightarrow> (None, False) | Some v \<Rightarrow> (v, True))"

text \<open>The getters. Each chain of selections and map reads is evaluated left to right.\<close>

definition GetPoliciesForConsortiums :: "externals \<Rightarrow> Config \<Rightarrow> error + (string \<rightharpoonup> Policy)" where
  "GetPoliciesForConsortiums X config =
     (case groupsOf (ChannelGroup config) of
        Inl e \<Rightarrow> Inl e
      | Inr gs \<Rightarrow>
          (case index gs ConsortiumsGroupKey of
             (consortiums, ok) \<Rightarrow>
               if \<not> ok then Inl (Error ''consortiums missing from config'')
               else (case policiesOf consortiums of
                       Inl e \<Rightarrow> Inl e
                     | Inr ps \<Rightarrow> getPolicies X ps)))"

definition GetPoliciesForConsortium ::
  "externals \<Rightarrow> Config \<Rightarrow> string \<Rightarrow> error + (string \<rightharpoonup> Policy)"
where
  "GetPoliciesForConsortium X config consortiumName =
     (case groupsOf (ChannelGroup config) of
        Inl e \<Rightarrow> Inl e
      | Inr gs \<Rightarrow>
          (case groupsOf (fst (index gs ConsortiumsGroupKey)) of
             Inl e \<Rightarrow> Inl e
           | Inr cs \<Rightarrow>
               (case index cs consortiumName of
                  (consortium, ok) \<Rightarrow>
                    if \<not> ok then
                      Inl (Error (''consortium '' @ consortiumName @ '' does not exist in channel config''))
                    else (case policiesOf consortium of
                            Inl e \<Rightarrow> Inl e
                          | Inr ps \<Rightarrow> getPolicies X ps))))"

definition GetPoliciesForConsortiumOrg ::
  "externals \<Rightarrow> Config \<Rightarrow> string \<Rightarrow> string \<Rightarrow> error + (string \<rightharpoonup> Policy)"
where
  "GetPoliciesForConsortiumOrg X config consortiumName orgName =
     (case groupsOf (ChannelGroup config) of
        Inl e \<Rightarrow> Inl e
      | Inr gs \<Rightarrow>
          (case groupsOf (fst (index gs ConsortiumsGroupKey)) of
             Inl e \<Rightarrow> Inl e
           | Inr cs \<Rightarrow>
               (case groupsOf (fst (index cs consortiumName)) of
                  Inl e \<Rightarrow> Inl e
                | Inr os \<Rightarrow>
                    (case index os orgName of
                       (org, ok) \<Rightarrow>
                         if \<not> ok then
                           Inl (Error (''consortium org '' @ orgName @ '' does not exist in channel config''))
                         else (case policiesOf org of
                                 Inl e \<Rightarrow> Inl e
                               | Inr ps \<Rightarrow> getPolicies X ps)))))"

definition GetPoliciesForOrderer :: "externals \<Rightarrow> Config \<Rightarrow> error + (string \<rightharpoonup> Policy)" where
  "GetPoliciesForOrderer X config =
     (case groupsOf (ChannelGroup config) of
        Inl e \<Rightarrow> Inl e
      | Inr gs \<Rightarrow>
          (case index gs OrdererGroupKey of
             (orderer, ok) \<Rightarrow>
               if \<not> ok then Inl (Error ''orderer missing from config'')
               else (case policiesOf orderer of
                       Inl e \<Rightarrow> Inl e
                     | Inr ps \<Rightarrow> getPolicies X ps)))"

definition GetPoliciesForOrdererOrg ::
  "externals \<Rightarrow> Config \<Rightarrow> string \<Rightarrow> error + (string \<rightharpoonup> Policy)"
where
  "GetPoliciesForOrdererOrg X config orgName =
     (case groupsOf (ChannelGroup config) of
        Inl e \<Rightarrow> Inl e
      | Inr gs \<Rightarrow>
          (case groupsOf (fst (index gs OrdererGroupKey)) of
             Inl e \<Rightarrow> Inl e
           | Inr os \<Rightarrow>
               (case index os orgName of
                  (org, ok) \<Rightarrow>
                    if \<not> ok then
                      Inl (Error (''orderer org '' @ orgName @ '' does not exist in channel config''))
                    else (case policiesOf org of
                            Inl e \<Rightarrow> Inl e
                          | Inr ps \<Rightarrow> getPolicies X ps))))"

definition GetPoliciesForApplication :: "externals \<Rightarrow> Config \<Rightarrow> error + (string \<rightharpoonup> Policy)" where
  "GetPoliciesForApplication X config =
     (case groupsOf (ChannelGroup config) of
        Inl e \<Rightarrow> Inl e
      | Inr gs \<Rightarrow>
          (case index gs ApplicationGroupKey of
             (application, ok) \<Rightarrow>
               if \<not> ok then Inl (Error ''application missing from config'')
               else (case policiesOf application of
                       Inl e \<Rightarrow> Inl e
                     | Inr ps \<Rightarrow> getPolicies X ps)))"

definition GetPoliciesForApplicationOrg ::
  "externals \<Rightarrow> Config \<Rightarrow> string \<Rightarrow> error + (string \<rightharpoonup> Policy)"
where
  "GetPoliciesForApplicationOrg X config orgName =
     (case groupsOf (ChannelGroup config) of
        Inl e \<Rightarrow> Inl e
      | Inr gs \<Rightarrow>
          (case groupsOf (fst (index gs ApplicationGroupKey)) of
             Inl e \<Rightarrow> Inl e
           | Inr os \<Rightarrow>
               (case index os orgName of
                  (orgGroup, ok) \<Rightarrow>
                    if \<not> ok then
                      Inl (Error (''application org '' @ orgName @ '' does not exist in channel config''))
                    else (case policiesOf orgGroup of
                            Inl e \<Rightarrow> Inl e
                          | Inr ps \<Rightarrow> getPolicies X ps))))"

subsection \<open>Installing and removing policies\<close>

text \<open>
  \<open>storePolicy cg name v\<close> is the assignment \<^verbatim>\<open>cg.Policies[name] = v\<close>: it panics when
  \<open>cg\<close> is nil and when the map is nil, and changes nothing then.
\<close>

definition storePolicy ::
  "ConfigGroup option \<Rightarrow> string \<Rightarrow> ConfigPolicy \<Rightarrow> ConfigGroup option \<times> error option"
where
  "storePolicy cg name v =
     (case cg of
        None \<Rightarrow> (None, Some Panic)
      | Some g \<Rightarrow>
          (case Policies g of
             None \<Rightarrow> (Some g, Some Panic)
           | Some ps \<Rightarrow> (Some (ConfigGroup (Groups g) (Some (AList.update name (Some v) ps))), None)))"

definition addPolicy ::
  "externals \<Rightarrow> ConfigGroup option \<Rightarrow> string \<Rightarrow> string \<Rightarrow> Policy
     \<Rightarrow> ConfigGroup option \<times> error option"
where
  "addPolicy X cg modPolicy policyName policy =
     (if Type policy = ImplicitMetaPolicyType then
        (case implicitMetaFromString X (Rule policy) of
           Inl err \<Rightarrow>
             (cg, Some (Error (''invalid implicit meta policy rule: '' @ [CHR 0x27] @ Rule policy
                               @ [CHR 0x27] @ '': '' @ err)))
         | Inr imp \<Rightarrow>
             (case MarshalImplicitMeta X imp of
                Inl err \<Rightarrow> (cg, Some (Error (''marshaling implicit meta policy: '' @ err)))
              | Inr implicitMetaPolicy \<Rightarrow>
                  storePolicy cg policyName
                    \<lparr>ModPolicy = modPolicy,
                     CPolicy = Some \<lparr>PType = Policy_IMPLICIT_META, PValue = implicitMetaPolicy\<rparr>\<rparr>))
      else if Type policy = SignaturePolicyType then
        (case FromString X (Rule policy) of
           Inl err \<Rightarrow>
             (cg, Some (Error (''invalid signature policy rule: '' @ [CHR 0x27] @ Rule policy
                               @ [CHR 0x27] @ '': '' @ err)))
         | Inr sp \<Rightarrow>
             (case MarshalSignature X sp of
                Inl err \<Rightarrow> (cg, Some (Error (''marshaling signature policy: '' @ err)))
              | Inr signaturePolicy \<Rightarrow>
                  storePolicy cg policyName
                    \<lparr>ModPolicy = modPolicy,
                     CPolicy = Some \<lparr>PType = Policy_SIGNATURE, PValue = signaturePolicy\<rparr>\<rparr>))
      else (cg, Some (Error (''unknown policy type: '' @ Type policy))))"

text \<open>
  \<^verbatim>\<open>addPolicies\<close>; \<open>addPolicies_loop\<close> is its loop over the batch, a map from names to
  policies (\<open>None\<close> when nil), visited in the order of the list.
\<close>

fun addPolicies_loop ::
  "externals \<Rightarrow> ConfigGroup option \<Rightarrow> (string \<times> Policy) list \<Rightarrow> string
     \<Rightarrow> ConfigGroup option \<times> error option"
where
  "addPolicies_loop X cg [] modPolicy = (cg, None)"
| "addPolicies_loop X cg ((policyName, policy) # rest) modPolicy =
     (case addPolicy X cg modPolicy policyName policy of
        (cg', Some err) \<Rightarrow> (cg', Some err)
      | (cg', None) \<Rightarrow> addPolicies_loop X cg' rest modPolicy)"

definition addPolicies ::
  "externals \<Rightarrow> ConfigGroup option \<Rightarrow> (string \<times> Policy) list option \<Rightarrow> string
     \<Rightarrow> ConfigGroup option \<times> error option"
where
  "addPolicies X cg policyMap modPolicy =
     (case policyMap of
        None \<Rightarrow> (cg, Some (Error ''no policies defined''))
      | Some pm \<Rightarrow>
          if map_of pm AdminsPolicyKey = None then (cg, Some (Error ''no Admins policy defined''))
          else if map_of pm ReadersPolicyKey = None then (cg, Some (Error ''no Readers policy defined''))
          else if map_of pm WritersPolicyKey = None then (cg, Some (Error ''no Writers policy defined''))
          else addPolicies_loop X cg pm modPolicy)"

text \<open>
  \<^verbatim>\<open>removePolicy\<close>: \<open>policies\<close> is the extracted view, only read. Deleting from a nil map
  does nothing; selecting \<^verbatim>\<open>configGroup.Policies\<close> through a nil pointer panics.
\<close>

definition removePolicy ::
  "ConfigGroup option \<Rightarrow> string \<Rightarrow> (string \<rightharpoonup> Policy) \<Rightarrow> ConfigGroup option \<times> error option"
where
  "removePolicy configGroup policyName policies =
     (if policies policyName = None then
        (configGroup, Some (Error (''could not find policy '' @ [CHR 0x27] @ policyName @ [CHR 0x27])))
      else
        (case configGroup of
           None \<Rightarrow> (None, Some Panic)
         | Some g \<Rightarrow>
             (Some (ConfigGroup (Groups g) (map_option (AList.delete policyName) (Policies g))), None)))"

text \<open>
  In Go the removers change the group through the pointer found in the tree. Here the
  changed group is put back where it was found: \<open>putGroup g k g'\<close> is \<open>g\<close> with \<open>g'\<close> at
  the key \<open>k\<close> of its groups.
\<close>

definition putGroup :: "ConfigGroup \<Rightarrow> string \<Rightarrow> ConfigGroup option \<Rightarrow> ConfigGroup" where
  "putGroup g k g' = ConfigGroup (AList.update k g' (Groups g)) (Policies g)"

definition RemoveOrdererPolicy ::
  "externals \<Rightarrow> Config option \<Rightarrow> string \<Rightarrow> Config option \<times> error option"
where
  "RemoveOrdererPolicy X config policyName =
     (if policyName = BlockValidationPolicyKey then
        (config, Some (Error ''BlockValidation policy must be defined''))
      else
        (case config of
           None \<Rightarrow> (None, Some Panic)
         | Some c \<Rightarrow>
             (case GetPoliciesForOrderer X c of
                Inl err \<Rightarrow> (config, Some err)
              | Inr policies \<Rightarrow>
                  (case ChannelGroup c of
                     None \<Rightarrow> (config, Some Panic)
                   | Some ch \<Rightarrow>
                       (case removePolicy (fst (index (Groups ch) OrdererGroupKey)) policyName policies of
                          (orderer', err) \<Rightarrow>
                            (Some (c\<lparr>ChannelGroup := Some (putGroup ch OrdererGroupKey orderer')\<rparr>), err))))))"

definition RemoveConsortiumOrgPolicy ::
  "Config option \<Rightarrow> string \<Rightarrow> string \<Rightarrow> string \<Rightarrow> Config option \<times> error option"
where
  "RemoveConsortiumOrgPolicy config consortiumName orgName policyName =
     (let groupKey = ConsortiumsGroupKey in
      case config of
        None \<Rightarrow> (None, Some Panic)
      | Some c \<Rightarrow>
          (case ChannelGroup c of
             None \<Rightarrow> (config, Some Panic)
           | Some ch \<Rightarrow>
               (case fst (index (Groups ch) groupKey) of
                  None \<Rightarrow> (config, Some Panic)
                | Some cs \<Rightarrow>
                    (case index (Groups cs) consortiumName of
                       (consortiumGroup, ok) \<Rightarrow>
                         if \<not> ok then
                           (config, Some (Error (''consortium '' @ [CHR 0x27] @ consortiumName @ [CHR 0x27]
                                                 @ '' does not exist in channel config'')))
                         else
                           (case consortiumGroup of
                              None \<Rightarrow> (config, Some Panic)
                            | Some cg \<Rightarrow>
                                (case index (Groups cg) orgName of
                                   (orgGroup, ok) \<Rightarrow>
                                     if \<not> ok then
                                       (config, Some (Error (ToLower groupKey @ '' org '' @ [CHR 0x27] @ orgName
                                                             @ [CHR 0x27] @ '' does not exist in channel config'')))
                                     else
                                       (case orgGroup of
                                          None \<Rightarrow> (config, Some Panic)
                                        | Some og \<Rightarrow>
                                            (let og' = ConfigGroup (Groups og)
                                                         (map_option (AList.delete policyName) (Policies og));
                                                 cg' = putGroup cg orgName (Some og');
                                                 cs' = putGroup cs consortiumName (Some cg');
                                                 ch' = putGroup ch groupKey (Some cs')
                                             in (Some (c\<lparr>ChannelGroup := Some ch'\<rparr>), None)))))))))"

subsection \<open>A concrete instance of the collaborators\<close>

text \<open>
  A small codec and compiler on which the model can be evaluated: the encoding of an
  implicit meta policy is its sub-policy name (\<open>''ANY ''\<close> is the only quantifier it
  compiles), the encoding of a signature policy is its text, and the text
  \<open>''bad''\<close> neither compiles nor decodes.
\<close>

definition exampleEnvelope :: SignaturePolicyEnvelope where
  "exampleEnvelope =
     \<lparr>SRule = Some (NOutOf 1 [Some (SignedBy 0)]),
      Identities = [Some \<lparr>PrincipalClassification = 0, Principal = ''Org1MSP''\<rparr>]\<rparr>"

definition exampleExternals :: externals where
  "exampleExternals =
     \<lparr>implicitMetaFromString =
        (\<lambda>s. if take 4 s = ''ANY '' then Inr \<lparr>SubPolicy = drop 4 s, IRule = 0\<rparr>
             else Inl ''no match''),
      FromString = (\<lambda>s. if s = ''bad'' then Inl ''unrecognized token'' else Inr exampleEnvelope),
      MarshalImplicitMeta = (\<lambda>imp. Inr (SubPolicy imp)),
      MarshalSignature = (\<lambda>sp. Inr ''sig''),
      UnmarshalImplicitMeta =
        (\<lambda>b. if b = ''bad'' then Inl ''unexpected EOF'' else Inr \<lparr>SubPolicy = b, IRule = 0\<rparr>),
      UnmarshalSignature = (\<lambda>b. if b = ''bad'' then Inl ''unexpected EOF'' else Inr exampleEnvelope),
      UnmarshalMSPRole =
        (\<lambda>b. if b = ''bad'' then Inl ''unexpected EOF'' else Inr \<lparr>MspIdentifier = b, Role = 1\<rparr>)\<rparr>"

text \<open>
  The body of the loop of \<^verbatim>\<open>getPolicies\<close> for one entry, on its own: the policy it
  stores under the name of the entry, or the error or panic at which the loop returns.
  \<open>getPolicies_loop_Cons\<close> below relates it to the loop.
\<close>

definition extractEntry :: "externals \<Rightarrow> ConfigPolicy option \<Rightarrow> error + Policy" where
  "extractEntry X policy =
     (case policy of
        None \<Rightarrow> Inl Panic
      | Some cp \<Rightarrow>
          (case CPolicy cp of
             None \<Rightarrow> Inl Panic
           | Some pol \<Rightarrow>
               if PType pol = Policy_IMPLICIT_META then
                 (case UnmarshalImplicitMeta X (PValue pol) of
                    Inl err \<Rightarrow> Inl (Error err)
                  | Inr imp \<Rightarrow>
                      (case implicitMetaToString imp of
                         Inl e \<Rightarrow> Inl e
                       | Inr rule \<Rightarrow> Inr \<lparr>Type = ImplicitMetaPolicyType, Rule = rule\<rparr>))
               else if PType pol = Policy_SIGNATURE then
                 (case UnmarshalSignature X (PValue pol) of
                    Inl err \<Rightarrow> Inl (Error err)
                  | Inr sp \<Rightarrow>
                      (case signatureMetaToString X sp of
                         Inl e \<Rightarrow> Inl e
                       | Inr rule \<Rightarrow> Inr \<lparr>Type = SignaturePolicyType, Rule = rule\<rparr>))
               else Inl (Error (''unknown policy type: '' @ Itoa (sint (PType pol))))))"

text \<open>Example data, for evaluating the model.\<close>

definition exampleBatchPrefix :: "(string \<times> Policy) list" where
  "exampleBatchPrefix =
     [(''Admins'', \<lparr>Type = ''ImplicitMeta'', Rule = ''ANY Admins''\<rparr>),
      (''Readers'', \<lparr>Type = ''ImplicitMeta'', Rule = ''ANY Readers''\<rparr>)]"

definition exampleInstalled :: "(string \<times> ConfigPolicy option) list" where
  "exampleInstalled =
     [(''Admins'', Some \<lparr>ModPolicy = ''Admins'', CPolicy = Some \<lparr>PType = 3, PValue = ''Admins''\<rparr>\<rparr>),
      (''Readers'', Some \<lparr>ModPolicy = ''Admins'', CPolicy = Some \<lparr>PType = 3, PValue = ''Readers''\<rparr>\<rparr>)]"

definition exampleStored :: "string \<Rightarrow> int32 \<Rightarrow> string \<Rightarrow> string \<times> ConfigPolicy option" where
  "exampleStored name kind payload =
     (name, Some \<lparr>ModPolicy = ''Admins'', CPolicy = Some \<lparr>PType = kind, PValue = payload\<rparr>\<rparr>)"

definition exampleConsortiumConfig :: Config where
  "exampleConsortiumConfig =
     \<lparr>ChannelGroup = Some (ConfigGroup
        [(''Consortiums'', Some (ConfigGroup
           [(''SampleConsortium'', Some (ConfigGroup
              [(''Org1'', Some (ConfigGroup [] (Some [])))] None))] None))] None)\<rparr>"

section \<open>Properties\<close>

subsection \<open>Auxiliary facts\<close>

lemma ToUpper_GateAnd: "ToUpper GateAnd = ''AND''"
  by code_simp

lemma ToUpper_GateOr: "ToUpper GateOr = ''OR''"
  by code_simp

lemma ToUpper_GateOutOf: "ToUpper GateOutOf = ''OUTOF''"
  by code_simp

lemma Gate_distinct: "GateOr \<noteq> GateOutOf" "GateAnd \<noteq> GateOutOf"
  by (simp_all add: GateOr_def GateAnd_def GateOutOf_def)

lemma ToLower_ADMIN: "ToLower (MSPRoleType_String 1) = ''admin''"
  by code_simp

lemma Itoa_7: "Itoa 7 = ''7''"
  by (simp add: Itoa_def decimal.simps digitChar_def)

lemma Itoa_2: "Itoa 2 = ''2''"
  by (simp add: Itoa_def decimal.simps digitChar_def)

text \<open>When every rule renders, the loop appends the renderings in the order of the rules.\<close>

lemma subPolicies_all_rendered:
  "map (\<lambda>r. signaturePolicyToString r IDs) rules = map Inr ts
   \<Longrightarrow> subPolicies rules IDs acc = Inr (acc @ ts)"
proof (induction rules arbitrary: acc ts)
  case Nil
  then show ?case by simp
next
  case (Cons r rules)
  then obtain t ts' where ts: "ts = t # ts'" by (cases ts) auto
  with Cons.prems have "signaturePolicyToString r IDs = Inr t"
    and "map (\<lambda>r. signaturePolicyToString r IDs) rules = map Inr ts'" by auto
  with Cons.IH [of ts' "acc @ [t]"] ts show ?case by simp
qed

text \<open>The conversion \<^verbatim>\<open>int32(len(rules))\<close> against the threshold.\<close>

lemma int32_of_sint_length:
  fixes n :: int32
  assumes "sint n = int k"
  shows "n = of_nat k"
  by (metis assms of_int_of_nat_eq of_int_sint scast_id)

lemma sint_of_nat_32:
  "sint (of_nat k :: int32) = (int k + 2147483648) mod 4294967296 - 2147483648"
  by (simp add: signed_of_nat signed_take_bit_eq_take_bit_shift take_bit_eq_mod)

lemma int32_len_neq:
  fixes n :: int32
  assumes "1 < sint n" "sint n < int k" "k < 2 ^ 32"
  shows "n \<noteq> of_nat k"
proof
  assume eq: "n = of_nat k"
  have s: "sint n = (int k + 2147483648) mod 4294967296 - 2147483648"
    unfolding eq by (rule sint_of_nat_32)
  show False
  proof (cases "k < 2147483648")
    case True
    then have "(int k + 2147483648) mod 4294967296 = int k + 2147483648" by simp
    with s assms(2) show False by simp
  next
    case False
    with assms(3) have "(int k + 2147483648) mod 4294967296 = int k + 2147483648 - 4294967296"
      by (simp add: mod_pos_geq)
    with s assms(1,3) show False by simp
  qed
qed

lemma int32_one_neq:
  assumes "k \<noteq> 1" "k < 2 ^ 32"
  shows "(1 :: int32) \<noteq> of_nat k"
proof
  assume "(1 :: int32) = of_nat k"
  then have "unat (1 :: int32) = unat (of_nat k :: int32)" by simp
  with assms show False by (simp add: unat_of_nat)
qed

text \<open>The three gates, by the two tests of the code in their order.\<close>

lemma NOutOf_And:
  assumes "n = of_nat (length rules)"
    and "map (\<lambda>r. signaturePolicyToString r IDs) rules = map Inr ts"
  shows "signaturePolicyToString (Some (NOutOf n rules)) IDs = Inr (''AND('' @ Join ts '', '' @ '')'')"
  using subPolicies_all_rendered [OF assms(2), of "[]"] assms(1)
  by (simp add: Let_def Gate_distinct ToUpper_GateAnd)

lemma NOutOf_Or:
  assumes "n = 1" "n \<noteq> of_nat (length rules)"
    and "map (\<lambda>r. signaturePolicyToString r IDs) rules = map Inr ts"
  shows "signaturePolicyToString (Some (NOutOf n rules)) IDs = Inr (''OR('' @ Join ts '', '' @ '')'')"
  using subPolicies_all_rendered [OF assms(3), of "[]"] assms(1,2)
  by (simp add: Let_def Gate_distinct ToUpper_GateOr)

lemma NOutOf_OutOf:
  assumes "n \<noteq> 1" "n \<noteq> of_nat (length rules)"
    and "map (\<lambda>r. signaturePolicyToString r IDs) rules = map Inr ts"
  shows "signaturePolicyToString (Some (NOutOf n rules)) IDs
         = Inr (''OUTOF('' @ Join (Itoa (sint n) # ts) '', '' @ '')'')"
  using subPolicies_all_rendered [OF assms(3), of "[Itoa (sint n)]"] assms(1,2)
  by (simp add: Let_def ToUpper_GateOutOf)

lemma index_present: "map_of m k = Some v \<Longrightarrow> index m k = (v, True)"
  by (simp add: index_def)

lemma index_absent: "map_of m k = None \<Longrightarrow> index m k = (None, False)"
  by (simp add: index_def)

lemma putGroup_same: "map_of (Groups g) k = Some g' \<Longrightarrow> putGroup g k g' = g"
  by (cases g) (simp add: putGroup_def update_triv)

text \<open>The loops of the extractor and of the batch install, one entry at a time.\<close>

lemma getPolicies_loop_Cons:
  "getPolicies_loop X ((name, policy) # rest) p
   = (case extractEntry X policy of
        Inl e \<Rightarrow> Inl e
      | Inr v \<Rightarrow> getPolicies_loop X rest (p(name \<mapsto> v)))"
  by (simp add: extractEntry_def split: option.splits sum.splits)

lemma getPolicies_loop_append:
  "getPolicies_loop X (pre @ rest) p
   = (case getPolicies_loop X pre p of Inl e \<Rightarrow> Inl e | Inr p' \<Rightarrow> getPolicies_loop X rest p')"
proof (induction pre arbitrary: p)
  case Nil
  then show ?case by simp
next
  case (Cons e pre)
  obtain name policy where e: "e = (name, policy)" by (cases e)
  show ?case unfolding e
    by (cases "extractEntry X policy")
       (simp_all only: append_Cons getPolicies_loop_Cons Cons.IH sum.case)
qed

lemma storePolicy_failure_keeps_group:
  "storePolicy cg name v = (cg', Some err) \<Longrightarrow> cg' = cg"
  by (auto simp: storePolicy_def split: option.splits)

lemma addPolicy_failure_keeps_group:
  "addPolicy X cg modPolicy name policy = (cg', Some err) \<Longrightarrow> cg' = cg"
  by (auto simp: addPolicy_def split: if_splits sum.splits dest: storePolicy_failure_keeps_group)

lemma storePolicy_success:
  "storePolicy cg name v = (cg', None) \<Longrightarrow>
     \<exists>g ps. cg = Some g \<and> Policies g = Some ps
            \<and> cg' = Some (ConfigGroup (Groups g) (Some (AList.update name (Some v) ps)))"
  by (auto simp: storePolicy_def split: option.splits)

lemma addPolicy_success:
  "addPolicy X cg modPolicy name policy = (cg', None) \<Longrightarrow>
     \<exists>g ps v. cg = Some g \<and> Policies g = Some ps
            \<and> cg' = Some (ConfigGroup (Groups g) (Some (AList.update name (Some v) ps)))"
  by (auto simp: addPolicy_def split: if_splits sum.splits dest!: storePolicy_success)

lemma addPolicies_loop_append:
  "addPolicies_loop X cg (pre @ rest) modPolicy
   = (case addPolicies_loop X cg pre modPolicy of
        (cg', Some err) \<Rightarrow> (cg', Some err)
      | (cg', None) \<Rightarrow> addPolicies_loop X cg' rest modPolicy)"
  by (induction pre arbitrary: cg) (auto split: prod.splits option.splits)

lemma addPolicies_loop_applied:
  "addPolicies_loop X cg pre modPolicy = (cg', None) \<Longrightarrow> pre \<noteq> [] \<Longrightarrow>
     \<exists>g ps ps'. cg = Some g \<and> Policies g = Some ps
        \<and> cg' = Some (ConfigGroup (Groups g) (Some ps'))
        \<and> fst ` set ps' = fst ` set ps \<union> fst ` set pre"
proof (induction pre arbitrary: cg)
  case Nil
  then show ?case by simp
next
  case (Cons e pre)
  obtain name policy where e: "e = (name, policy)" by (cases e)
  from Cons.prems(1) e obtain cg1 where
    first: "addPolicy X cg modPolicy name policy = (cg1, None)"
    and rest: "addPolicies_loop X cg1 pre modPolicy = (cg', None)"
    by (auto split: prod.splits option.splits)
  from addPolicy_success [OF first] obtain g ps v where
    g: "cg = Some g" "Policies g = Some ps"
       "cg1 = Some (ConfigGroup (Groups g) (Some (AList.update name (Some v) ps)))"
    by blast
  show ?case
  proof (cases "pre = []")
    case True
    with rest g e show ?thesis by (auto simp: dom_update)
  next
    case False
    from Cons.IH [OF rest False] g e show ?thesis by (auto simp: dom_update)
  qed
qed

text \<open>A missing intermediate group is a nil pointer, and selecting through it panics.\<close>

lemma GetPoliciesForConsortiumOrg_consortium_absent:
  assumes "ChannelGroup config = Some ch"
    and "map_of (Groups ch) ConsortiumsGroupKey = Some (Some cs)"
    and "map_of (Groups cs) consortiumName = None"
  shows "GetPoliciesForConsortiumOrg X config consortiumName orgName = Inl Panic"
  using assms by (simp add: GetPoliciesForConsortiumOrg_def groupsOf_def index_present index_absent)

lemma GetPoliciesForApplicationOrg_application_absent:
  assumes "ChannelGroup config = Some ch"
    and "map_of (Groups ch) ApplicationGroupKey = None"
  shows "GetPoliciesForApplicationOrg X config orgName = Inl Panic"
  using assms by (simp add: GetPoliciesForApplicationOrg_def groupsOf_def index_absent)

subsection \<open>The gate of an NOutOf node\<close>

text \<open>
  C1, as stated, fails: a node with threshold 1 and exactly one rule is rendered with
  AND, not OR. The test \<^verbatim>\<open>N == len(Rules)\<close> comes after the test \<^verbatim>\<open>N == 1\<close> and
  overrides it.
\<close>

theorem NOutOf_one_single_rule_counterexample:
  "signaturePolicyToString (Some (NOutOf 1 [Some (SignedBy 0)])) [''x''] = Inr ''AND(x)''
   \<and> \<not> prefix ''OR('' ''AND(x)''"
  by (simp add: Let_def Gate_distinct ToUpper_GateAnd)

text \<open>
  C1, amended: a node with threshold 1 whose number of rules is not 1 (and fits the
  conversion to \<^verbatim>\<open>int32\<close>), and whose rules all render, is rendered as \<open>OR(\<dots>)\<close> around
  the renderings of its rules, joined by comma and space, in their order.
\<close>

theorem NOutOf_one_renders_OR:
  assumes "sint n = 1" and "length rules \<noteq> 1" and "length rules < 2 ^ 32"
    and "map (\<lambda>r. signaturePolicyToString r IDs) rules = map Inr ts"
  shows "signaturePolicyToString (Some (NOutOf n rules)) IDs = Inr (''OR('' @ Join ts '', '' @ '')'')
         \<and> prefix ''OR('' (''OR('' @ Join ts '', '' @ '')'')"
proof -
  from assms(1) have n: "n = 1" using int32_of_sint_length [of n 1] by simp
  with int32_one_neq [OF assms(2,3)] have "n \<noteq> of_nat (length rules)" by simp
  from NOutOf_Or [OF n this assms(4)] show ?thesis by simp
qed

theorem NOutOf_one_renders_OR_witness:
  "sint (1 :: int32) = 1 \<and> length [Some (SignedBy 0), Some (SignedBy 1)] \<noteq> 1
   \<and> length [Some (SignedBy 0), Some (SignedBy 1)] < (2 :: nat) ^ 32
   \<and> map (\<lambda>r. signaturePolicyToString r [''a'', ''b'']) [Some (SignedBy 0), Some (SignedBy 1)]
       = map Inr [''a'', ''b'']
   \<and> signaturePolicyToString (Some (NOutOf 1 [Some (SignedBy 0), Some (SignedBy 1)])) [''a'', ''b'']
       = Inr ''OR(a, b)''"
proof -
  have h1: "sint (1 :: int32) = 1" by simp
  have h2: "length [Some (SignedBy 0), Some (SignedBy 1)] \<noteq> 1" by simp
  have h3: "length [Some (SignedBy 0), Some (SignedBy 1)] < (2 :: nat) ^ 32" by simp
  have h4: "map (\<lambda>r. signaturePolicyToString r [''a'', ''b'']) [Some (SignedBy 0), Some (SignedBy 1)]
       = map Inr [''a'', ''b'']" by simp
  show ?thesis using h1 h2 h3 h4 NOutOf_one_renders_OR [OF h1 h2 h3 h4] by simp
qed

text \<open>
  C4: let the rules of an NOutOf node all render, to the texts \<open>ts\<close> in the order of the
  rules. If the node has more than one rule and its threshold equals their number, the
  text is \<open>AND(\<close>, the texts joined by comma and space, \<open>)\<close>. If the threshold \<open>N\<close> is
  greater than 1 and less than the number of rules, the text is \<open>OUTOF(\<close>, then the
  decimal rendering of \<open>N\<close> followed by the texts, all joined by comma and space, \<open>)\<close>.
  The number of rules is taken to fit the conversion \<^verbatim>\<open>int32(len(Rules))\<close>, that is, to
  be below \<open>2 ^ 32\<close>; for the first case this follows from the equality with \<open>N\<close>.
\<close>

theorem NOutOf_AND_and_OUTOF:
  assumes "map (\<lambda>r. signaturePolicyToString r IDs) rules = map Inr ts"
  shows "(1 < length rules \<and> sint n = int (length rules) \<longrightarrow>
            signaturePolicyToString (Some (NOutOf n rules)) IDs = Inr (''AND('' @ Join ts '', '' @ '')''))
       \<and> (1 < sint n \<and> sint n < int (length rules) \<and> length rules < 2 ^ 32 \<longrightarrow>
            signaturePolicyToString (Some (NOutOf n rules)) IDs
              = Inr (''OUTOF('' @ Join (Itoa (sint n) # ts) '', '' @ '')''))"
proof (intro conjI impI)
  assume "1 < length rules \<and> sint n = int (length rules)"
  then have "n = of_nat (length rules)" by (simp add: int32_of_sint_length)
  from NOutOf_And [OF this assms]
  show "signaturePolicyToString (Some (NOutOf n rules)) IDs = Inr (''AND('' @ Join ts '', '' @ '')'')" .
next
  assume a: "1 < sint n \<and> sint n < int (length rules) \<and> length rules < 2 ^ 32"
  then have "n \<noteq> of_nat (length rules)" using int32_len_neq [of n "length rules"] by simp
  moreover from a have "n \<noteq> 1" by auto
  ultimately show "signaturePolicyToString (Some (NOutOf n rules)) IDs
              = Inr (''OUTOF('' @ Join (Itoa (sint n) # ts) '', '' @ '')'')"
    using NOutOf_OutOf [OF _ _ assms] by simp
qed

theorem NOutOf_AND_and_OUTOF_witness:
  "signaturePolicyToString (Some (NOutOf 2 [Some (SignedBy 0), Some (SignedBy 1)])) [''a'', ''b'', ''c'']
     = Inr ''AND(a, b)''
   \<and> signaturePolicyToString (Some (NOutOf 2 [Some (SignedBy 0), Some (SignedBy 1), Some (SignedBy 2)]))
       [''a'', ''b'', ''c'']
     = Inr ''OUTOF(2, a, b, c)''"
proof -
  have h2: "map (\<lambda>r. signaturePolicyToString r [''a'', ''b'', ''c'']) [Some (SignedBy 0), Some (SignedBy 1)]
            = map Inr [''a'', ''b'']" by simp
  have h3: "map (\<lambda>r. signaturePolicyToString r [''a'', ''b'', ''c''])
              [Some (SignedBy 0), Some (SignedBy 1), Some (SignedBy 2)]
            = map Inr [''a'', ''b'', ''c'']" by simp
  show ?thesis
    using NOutOf_AND_and_OUTOF [OF h2, of 2] NOutOf_AND_and_OUTOF [OF h3, of 2]
    by (simp add: Itoa_2)
qed

subsection \<open>The principal formatter\<close>

text \<open>
  C5: for a principal of classification ROLE whose payload decodes to a role, the
  formatter returns, with no error, the text of the MSP identifier, a dot and the
  lower-cased name of the role, in single quotes. For the classifications
  ORGANIZATION_UNIT, IDENTITY, ANONYMITY and COMBINED it returns the empty text with no
  error. For any other classification it returns the error of an unknown classification
  (the message of the code reads "unknown MSP principal classiciation", then the value).
\<close>

theorem mspPrincipalToString_classification:
  "(PrincipalClassification p = MSPPrincipal_ROLE \<and> UnmarshalMSPRole X (Principal p) = Inr role \<longrightarrow>
      mspPrincipalToString X (Some p)
      = Inr ([CHR 0x27] @ MspIdentifier role @ ''.'' @ ToLower (MSPRoleType_String (Role role)) @ [CHR 0x27]))
   \<and> (PrincipalClassification p \<in> {MSPPrincipal_ORGANIZATION_UNIT, MSPPrincipal_IDENTITY,
                                      MSPPrincipal_ANONYMITY, MSPPrincipal_COMBINED} \<longrightarrow>
      mspPrincipalToString X (Some p) = Inr [])
   \<and> (PrincipalClassification p \<notin> {MSPPrincipal_ROLE, MSPPrincipal_ORGANIZATION_UNIT,
                                      MSPPrincipal_IDENTITY, MSPPrincipal_ANONYMITY, MSPPrincipal_COMBINED} \<longrightarrow>
      mspPrincipalToString X (Some p)
      = Inl (Error (''unknown MSP principal classiciation '' @ Itoa (sint (PrincipalClassification p)))))"
  by (auto simp: mspPrincipalToString_def MSPPrincipal_ROLE_def MSPPrincipal_ORGANIZATION_UNIT_def
      MSPPrincipal_IDENTITY_def MSPPrincipal_ANONYMITY_def MSPPrincipal_COMBINED_def)

theorem mspPrincipalToString_classification_witness:
  "mspPrincipalToString exampleExternals (Some \<lparr>PrincipalClassification = 0, Principal = ''Org1MSP''\<rparr>)
     = Inr ([CHR 0x27] @ ''Org1MSP.admin'' @ [CHR 0x27])
   \<and> mspPrincipalToString exampleExternals (Some \<lparr>PrincipalClassification = 1, Principal = ''Org1MSP''\<rparr>)
     = Inr []
   \<and> mspPrincipalToString exampleExternals (Some \<lparr>PrincipalClassification = 7, Principal = ''Org1MSP''\<rparr>)
     = Inl (Error ''unknown MSP principal classiciation 7'')"
  using mspPrincipalToString_classification
          [of "\<lparr>PrincipalClassification = 0, Principal = ''Org1MSP''\<rparr>" exampleExternals
              "\<lparr>MspIdentifier = ''Org1MSP'', Role = 1\<rparr>"]
        mspPrincipalToString_classification
          [of "\<lparr>PrincipalClassification = 1, Principal = ''Org1MSP''\<rparr>" exampleExternals]
        mspPrincipalToString_classification
          [of "\<lparr>PrincipalClassification = 7, Principal = ''Org1MSP''\<rparr>" exampleExternals]
  by (simp add: exampleExternals_def MSPPrincipal_ROLE_def MSPPrincipal_ORGANIZATION_UNIT_def
      MSPPrincipal_IDENTITY_def MSPPrincipal_ANONYMITY_def MSPPrincipal_COMBINED_def ToLower_ADMIN Itoa_7)

subsection \<open>The required policies of a batch\<close>

text \<open>
  C7: when the batch is nil or lacks an entry named Admins, Readers or Writers, the batch
  install returns the error of the first failed check, and the group is the group it was
  given: nothing has been stored.
\<close>

theorem addPolicies_required_policies:
  assumes "policyMap = None
           \<or> (\<exists>pm. policyMap = Some pm
                 \<and> (AdminsPolicyKey \<notin> fst ` set pm \<or> ReadersPolicyKey \<notin> fst ` set pm
                      \<or> WritersPolicyKey \<notin> fst ` set pm))"
  shows "addPolicies X cg policyMap modPolicy
         = (cg, Some (Error
              (case policyMap of
                 None \<Rightarrow> ''no policies defined''
               | Some pm \<Rightarrow>
                   if AdminsPolicyKey \<notin> fst ` set pm then ''no Admins policy defined''
                   else if ReadersPolicyKey \<notin> fst ` set pm then ''no Readers policy defined''
                   else ''no Writers policy defined'')))"
  using assms by (auto simp: addPolicies_def map_of_eq_None_iff)

theorem addPolicies_required_policies_witness:
  "(\<exists>pm. Some [(''Admins'', \<lparr>Type = ''ImplicitMeta'', Rule = ''ANY Admins''\<rparr>),
                (''Readers'', \<lparr>Type = ''ImplicitMeta'', Rule = ''ANY Readers''\<rparr>)] = Some pm
         \<and> WritersPolicyKey \<notin> fst ` set pm)
   \<and> addPolicies exampleExternals (Some (ConfigGroup [] (Some [])))
        (Some [(''Admins'', \<lparr>Type = ''ImplicitMeta'', Rule = ''ANY Admins''\<rparr>),
               (''Readers'', \<lparr>Type = ''ImplicitMeta'', Rule = ''ANY Readers''\<rparr>)]) ''Admins''
      = (Some (ConfigGroup [] (Some [])), Some (Error ''no Writers policy defined''))"
proof -
  let ?pm = "[(''Admins'', \<lparr>Type = ''ImplicitMeta'', Rule = ''ANY Admins''\<rparr>),
              (''Readers'', \<lparr>Type = ''ImplicitMeta'', Rule = ''ANY Readers''\<rparr>)]"
  have h: "Some ?pm = None
           \<or> (\<exists>pm. Some ?pm = Some pm
                 \<and> (AdminsPolicyKey \<notin> fst ` set pm \<or> ReadersPolicyKey \<notin> fst ` set pm
                      \<or> WritersPolicyKey \<notin> fst ` set pm))"
    by (simp add: WritersPolicyKey_def)
  from addPolicies_required_policies [OF h, of exampleExternals "Some (ConfigGroup [] (Some []))" "''Admins''"]
  show ?thesis
    by (simp add: AdminsPolicyKey_def ReadersPolicyKey_def WritersPolicyKey_def)
qed

subsection \<open>Removing policies\<close>

text \<open>
  C8: removing the policy named BlockValidation from the orderer group returns an error
  for every configuration, nil or not, with or without an orderer group and with or
  without such a policy, and the configuration is left as it was. The name is tested
  first, before the configuration is read.
\<close>

theorem RemoveOrdererPolicy_BlockValidation_rejected:
  "RemoveOrdererPolicy X config BlockValidationPolicyKey
   = (config, Some (Error ''BlockValidation policy must be defined''))"
  by (simp add: RemoveOrdererPolicy_def)

theorem RemoveOrdererPolicy_BlockValidation_rejected_witness:
  "RemoveOrdererPolicy exampleExternals (Some exampleConsortiumConfig) ''BlockValidation''
   = (Some exampleConsortiumConfig, Some (Error ''BlockValidation policy must be defined''))"
  using RemoveOrdererPolicy_BlockValidation_rejected [of exampleExternals "Some exampleConsortiumConfig"]
  by (simp add: BlockValidationPolicyKey_def)

text \<open>
  C9: when the name is absent from the extracted view, the remove primitive returns the
  error "could not find policy" with the name, and the group is the group it was given.
  When the name is present in the view, it returns no error, and the group it leaves
  has the same child groups and a policy map without the name and otherwise unchanged
  (a nil map stays nil).
\<close>

theorem removePolicy_view_check:
  "(policies policyName = None \<longrightarrow>
      removePolicy cg policyName policies
      = (cg, Some (Error (''could not find policy '' @ [CHR 0x27] @ policyName @ [CHR 0x27]))))
   \<and> (policies policyName \<noteq> None \<longrightarrow>
      removePolicy (Some g) policyName policies
        = (Some (ConfigGroup (Groups g) (map_option (AList.delete policyName) (Policies g))), None)
      \<and> (\<forall>ps. Policies g = Some ps \<longrightarrow>
            map_of (AList.delete policyName ps) = (map_of ps)(policyName := None)))"
  by (auto simp: removePolicy_def delete_conv')

theorem removePolicy_view_check_witness:
  "removePolicy (Some (ConfigGroup [] (Some [(''Admins'', None), (''Readers'', None)]))) ''Writers''
     [''Readers'' \<mapsto> \<lparr>Type = ''ImplicitMeta'', Rule = ''ANY Readers''\<rparr>]
   = (Some (ConfigGroup [] (Some [(''Admins'', None), (''Readers'', None)])),
      Some (Error (''could not find policy '' @ [CHR 0x27] @ ''Writers'' @ [CHR 0x27])))
   \<and> removePolicy (Some (ConfigGroup [] (Some [(''Admins'', None), (''Readers'', None)]))) ''Readers''
     [''Readers'' \<mapsto> \<lparr>Type = ''ImplicitMeta'', Rule = ''ANY Readers''\<rparr>]
   = (Some (ConfigGroup [] (Some [(''Admins'', None)])), None)"
  using removePolicy_view_check
          [of "[''Readers'' \<mapsto> \<lparr>Type = ''ImplicitMeta'', Rule = ''ANY Readers''\<rparr>]" "''Writers''"
              "Some (ConfigGroup [] (Some [(''Admins'', None), (''Readers'', None)]))"]
        removePolicy_view_check
          [of "[''Readers'' \<mapsto> \<lparr>Type = ''ImplicitMeta'', Rule = ''ANY Readers''\<rparr>]" "''Readers''" _
              "ConfigGroup [] (Some [(''Admins'', None), (''Readers'', None)])"]
  by simp

text \<open>
  C10: when the channel group, the consortiums group, the named consortium and the
  named organization exist, \<^verbatim>\<open>RemoveConsortiumOrgPolicy\<close> returns no error, whatever the
  policy name: it deletes the name from the policy map of the organization without
  consulting any view. When the organization has no policy of that name, the
  configuration is left as it was, and still no error is returned.
\<close>

theorem RemoveConsortiumOrgPolicy_no_presence_check:
  assumes "ChannelGroup c = Some ch"
    and "map_of (Groups ch) ConsortiumsGroupKey = Some (Some cs)"
    and "map_of (Groups cs) consortiumName = Some (Some cg)"
    and "map_of (Groups cg) orgName = Some (Some og)"
  shows "RemoveConsortiumOrgPolicy (Some c) consortiumName orgName policyName
         = (Some (c\<lparr>ChannelGroup := Some (putGroup ch ConsortiumsGroupKey
              (Some (putGroup cs consortiumName
                (Some (putGroup cg orgName
                  (Some (ConfigGroup (Groups og)
                     (map_option (AList.delete policyName) (Policies og)))))))))\<rparr>), None)
         \<and> ((\<forall>ps. Policies og = Some ps \<longrightarrow> policyName \<notin> fst ` set ps) \<longrightarrow>
              RemoveConsortiumOrgPolicy (Some c) consortiumName orgName policyName = (Some c, None))"
proof (intro conjI impI)
  show "RemoveConsortiumOrgPolicy (Some c) consortiumName orgName policyName
         = (Some (c\<lparr>ChannelGroup := Some (putGroup ch ConsortiumsGroupKey
              (Some (putGroup cs consortiumName
                (Some (putGroup cg orgName
                  (Some (ConfigGroup (Groups og)
                     (map_option (AList.delete policyName) (Policies og)))))))))\<rparr>), None)"
    using assms by (simp add: RemoveConsortiumOrgPolicy_def Let_def index_present)
next
  assume absent: "\<forall>ps. Policies og = Some ps \<longrightarrow> policyName \<notin> fst ` set ps"
  have "map_option (AList.delete policyName) (Policies og) = Policies og"
    using absent by (cases "Policies og") (simp_all add: delete_id)
  then have og: "ConfigGroup (Groups og) (map_option (AList.delete policyName) (Policies og)) = og"
    by simp
  have "putGroup ch ConsortiumsGroupKey
          (Some (putGroup cs consortiumName (Some (putGroup cg orgName (Some og))))) = ch"
    using assms by (simp add: putGroup_same)
  with assms og show "RemoveConsortiumOrgPolicy (Some c) consortiumName orgName policyName = (Some c, None)"
    by (simp add: RemoveConsortiumOrgPolicy_def Let_def index_present)
qed

theorem RemoveConsortiumOrgPolicy_no_presence_check_witness:
  "RemoveConsortiumOrgPolicy (Some exampleConsortiumConfig) ''SampleConsortium'' ''Org1'' ''Endorsement''
   = (Some exampleConsortiumConfig, None)"
proof -
  let ?og = "ConfigGroup [] (Some [])"
  let ?cg = "ConfigGroup [(''Org1'', Some ?og)] None"
  let ?cs = "ConfigGroup [(''SampleConsortium'', Some ?cg)] None"
  let ?ch = "ConfigGroup [(''Consortiums'', Some ?cs)] None"
  have h1: "ChannelGroup exampleConsortiumConfig = Some ?ch"
    by (simp add: exampleConsortiumConfig_def)
  have h2: "map_of (Groups ?ch) ConsortiumsGroupKey = Some (Some ?cs)"
    by (simp add: ConsortiumsGroupKey_def)
  have h3: "map_of (Groups ?cs) ''SampleConsortium'' = Some (Some ?cg)" by simp
  have h4: "map_of (Groups ?cg) ''Org1'' = Some (Some ?og)" by simp
  have h5: "\<forall>ps. Policies ?og = Some ps \<longrightarrow> ''Endorsement'' \<notin> fst ` set ps" by simp
  from RemoveConsortiumOrgPolicy_no_presence_check [OF h1 h2 h3 h4, of "''Endorsement''"]
  have "RemoveConsortiumOrgPolicy (Some exampleConsortiumConfig) ''SampleConsortium'' ''Org1'' ''Endorsement''
        = (Some exampleConsortiumConfig, None)"
    using h5 by blast
  then show ?thesis .
qed

text \<open>
  By contrast, \<^verbatim>\<open>RemoveOrdererPolicy\<close> consults the extracted view: for a name that
  the view lacks it returns the error of \<^verbatim>\<open>removePolicy\<close> and changes nothing.
\<close>

lemma RemoveOrdererPolicy_absent_policy:
  assumes "policyName \<noteq> BlockValidationPolicyKey"
    and "GetPoliciesForOrderer X c = Inr view"
    and "view policyName = None"
  shows "RemoveOrdererPolicy X (Some c) policyName
         = (Some c, Some (Error (''could not find policy '' @ [CHR 0x27] @ policyName @ [CHR 0x27])))"
proof -
  from assms(2) obtain ch where ch: "ChannelGroup c = Some ch"
    by (cases "ChannelGroup c") (simp_all add: GetPoliciesForOrderer_def groupsOf_def)
  from assms(2) ch obtain og where og: "map_of (Groups ch) OrdererGroupKey = Some og"
    by (cases "map_of (Groups ch) OrdererGroupKey")
       (simp_all add: GetPoliciesForOrderer_def groupsOf_def index_def)
  have "putGroup ch OrdererGroupKey og = ch" using og by (rule putGroup_same)
  with assms ch og show ?thesis
    by (simp add: RemoveOrdererPolicy_def removePolicy_def index_present)
qed

subsection \<open>The batch install\<close>

text \<open>
  C2, as stated, fails: a batch with the three required names whose last visited entry
  does not compile returns the error of that entry, and the two entries visited before
  it stay in the policy map of the group.
\<close>

theorem addPolicies_partial_application_counterexample:
  "addPolicies exampleExternals (Some (ConfigGroup [] (Some [])))
     (Some [(''Admins'', \<lparr>Type = ''ImplicitMeta'', Rule = ''ANY Admins''\<rparr>),
            (''Readers'', \<lparr>Type = ''ImplicitMeta'', Rule = ''ANY Readers''\<rparr>),
            (''Writers'', \<lparr>Type = ''ImplicitMeta'', Rule = ''bad''\<rparr>)]) ''Admins''
   = (Some (ConfigGroup []
        (Some [(''Admins'', Some \<lparr>ModPolicy = ''Admins'', CPolicy = Some \<lparr>PType = 3, PValue = ''Admins''\<rparr>\<rparr>),
               (''Readers'', Some \<lparr>ModPolicy = ''Admins'', CPolicy = Some \<lparr>PType = 3, PValue = ''Readers''\<rparr>\<rparr>)])),
      Some (Error (''invalid implicit meta policy rule: '' @ [CHR 0x27] @ ''bad'' @ [CHR 0x27] @ '': no match'')))
   \<and> Policies (ConfigGroup []
        (Some [(''Admins'', Some \<lparr>ModPolicy = ''Admins'', CPolicy = Some \<lparr>PType = 3, PValue = ''Admins''\<rparr>\<rparr>),
               (''Readers'', Some \<lparr>ModPolicy = ''Admins'', CPolicy = Some \<lparr>PType = 3, PValue = ''Readers''\<rparr>\<rparr>)]))
     \<noteq> Policies (ConfigGroup [] (Some []))"
  by (simp add: addPolicies_def addPolicy_def storePolicy_def exampleExternals_def
      AdminsPolicyKey_def ReadersPolicyKey_def WritersPolicyKey_def ImplicitMetaPolicyType_def
      Policy_IMPLICIT_META_def)

text \<open>
  C2, amended: when the batch has the three required names, the entries visited before
  some entry are installed without error, and installing that entry fails, the batch
  install returns the error of that entry and leaves the group as it was after the
  entries visited before: their names are in its policy map, and the failing entry and
  the entries after it are not installed. Nothing is rolled back.
\<close>

theorem addPolicies_stops_at_first_failure:
  assumes "AdminsPolicyKey \<in> fst ` set (pre @ (name, policy) # rest)"
    and "ReadersPolicyKey \<in> fst ` set (pre @ (name, policy) # rest)"
    and "WritersPolicyKey \<in> fst ` set (pre @ (name, policy) # rest)"
    and "addPolicies_loop X cg pre modPolicy = (cg', None)"
    and "addPolicy X cg' modPolicy name policy = (cg'', Some err)"
  shows "addPolicies X cg (Some (pre @ (name, policy) # rest)) modPolicy = (cg', Some err)
         \<and> (pre \<noteq> [] \<longrightarrow>
              (\<exists>g ps ps'. cg = Some g \<and> Policies g = Some ps
                 \<and> cg' = Some (ConfigGroup (Groups g) (Some ps'))
                 \<and> fst ` set ps' = fst ` set ps \<union> fst ` set pre))"
proof (intro conjI impI)
  from assms(5) have same: "cg'' = cg'" by (rule addPolicy_failure_keeps_group)
  let ?pm = "pre @ (name, policy) # rest"
  have "map_of ?pm AdminsPolicyKey \<noteq> None" "map_of ?pm ReadersPolicyKey \<noteq> None"
    "map_of ?pm WritersPolicyKey \<noteq> None"
    using assms(1-3) by (simp_all only: map_of_eq_None_iff not_not)
  then have "addPolicies X cg (Some ?pm) modPolicy = addPolicies_loop X cg ?pm modPolicy"
    unfolding addPolicies_def by (simp only: option.case if_False)
  also have "\<dots> = (cg', Some err)"
    using assms(4,5) same by (simp add: addPolicies_loop_append)
  finally show "addPolicies X cg (Some (pre @ (name, policy) # rest)) modPolicy = (cg', Some err)" .
next
  assume "pre \<noteq> []"
  with assms(4) show "\<exists>g ps ps'. cg = Some g \<and> Policies g = Some ps
                 \<and> cg' = Some (ConfigGroup (Groups g) (Some ps'))
                 \<and> fst ` set ps' = fst ` set ps \<union> fst ` set pre"
    by (rule addPolicies_loop_applied)
qed

theorem addPolicies_stops_at_first_failure_witness:
  "addPolicies exampleExternals (Some (ConfigGroup [] (Some [])))
     (Some (exampleBatchPrefix @ (''Writers'', \<lparr>Type = ''ImplicitMeta'', Rule = ''bad''\<rparr>) # [])) ''Admins''
   = (Some (ConfigGroup [] (Some exampleInstalled)),
      Some (Error (''invalid implicit meta policy rule: '' @ [CHR 0x27] @ ''bad'' @ [CHR 0x27] @ '': no match'')))"
proof -
  let ?bad = "\<lparr>Type = ''ImplicitMeta'', Rule = ''bad''\<rparr>"
  let ?pm = "exampleBatchPrefix @ (''Writers'', ?bad) # []"
  let ?err = "Error (''invalid implicit meta policy rule: '' @ [CHR 0x27] @ ''bad'' @ [CHR 0x27] @ '': no match'')"
  have h1: "AdminsPolicyKey \<in> fst ` set ?pm"
    by (simp add: exampleBatchPrefix_def AdminsPolicyKey_def)
  have h2: "ReadersPolicyKey \<in> fst ` set ?pm"
    by (simp add: exampleBatchPrefix_def ReadersPolicyKey_def)
  have h3: "WritersPolicyKey \<in> fst ` set ?pm"
    by (simp add: exampleBatchPrefix_def WritersPolicyKey_def)
  have h4: "addPolicies_loop exampleExternals (Some (ConfigGroup [] (Some []))) exampleBatchPrefix ''Admins''
            = (Some (ConfigGroup [] (Some exampleInstalled)), None)"
    by (simp add: exampleBatchPrefix_def exampleInstalled_def addPolicy_def storePolicy_def
        exampleExternals_def ImplicitMetaPolicyType_def Policy_IMPLICIT_META_def)
  have h5: "addPolicy exampleExternals (Some (ConfigGroup [] (Some exampleInstalled))) ''Admins'' ''Writers'' ?bad
            = (Some (ConfigGroup [] (Some exampleInstalled)), Some ?err)"
    by (simp add: addPolicy_def exampleExternals_def ImplicitMetaPolicyType_def)
  from addPolicies_stops_at_first_failure [OF h1 h2 h3 h4 h5]
  show ?thesis by (rule conjunct1)
qed

subsection \<open>The extractor\<close>

text \<open>
  C6, as stated, fails: the extraction does not return an error for every map with an
  entry of an unknown kind. When an entry visited before it holds a nil \<^verbatim>\<open>Policy\<close>
  pointer, the extraction panics at that entry, and no error is returned.
\<close>

theorem getPolicies_earlier_entry_panics_counterexample:
  "getPolicies exampleExternals
     (Some [(''Admins'', Some \<lparr>ModPolicy = ''Admins'', CPolicy = None\<rparr>),
            exampleStored ''Readers'' 7 ''sig''])
     = Inl Panic
   \<and> \<not> (\<exists>msg. getPolicies exampleExternals
            (Some [(''Admins'', Some \<lparr>ModPolicy = ''Admins'', CPolicy = None\<rparr>),
                   exampleStored ''Readers'' 7 ''sig''])
            = Inl (Error msg))"
  by (simp add: getPolicies_def)

text \<open>
  C6, amended: let a stored entry have a payload that does not decode (as an implicit
  meta or a signature policy, by its kind) or a kind other than IMPLICIT_META and
  SIGNATURE. Wherever the entry stands in the order of the visit, the extraction
  returns no map, partial or whole. When the entries visited before it are extracted,
  the result is the error of this entry: the error of the codec as it is, or "unknown
  policy type" with the kind. When an entry visited before it stops the extraction,
  with an error or with a panic, the result is that of the earlier entry.
\<close>

theorem getPolicies_aborts_without_map:
  assumes "CPolicy cp = Some pol"
    and "(PType pol = Policy_IMPLICIT_META \<and> UnmarshalImplicitMeta X (PValue pol) = Inl err)
         \<or> (PType pol = Policy_SIGNATURE \<and> UnmarshalSignature X (PValue pol) = Inl err)
         \<or> (PType pol \<noteq> Policy_IMPLICIT_META \<and> PType pol \<noteq> Policy_SIGNATURE
              \<and> err = ''unknown policy type: '' @ Itoa (sint (PType pol)))"
  shows "(\<exists>e. getPolicies X (Some (pre @ (name, Some cp) # rest)) = Inl e)
       \<and> (\<forall>p'. getPolicies_loop X pre Map.empty = Inr p' \<longrightarrow>
             getPolicies X (Some (pre @ (name, Some cp) # rest)) = Inl (Error err))
       \<and> (\<forall>e. getPolicies_loop X pre Map.empty = Inl e \<longrightarrow>
             getPolicies X (Some (pre @ (name, Some cp) # rest)) = Inl e)"
proof -
  have entry: "getPolicies_loop X ((name, Some cp) # rest) p = Inl (Error err)" for p
    using assms by (auto simp: Policy_IMPLICIT_META_def Policy_SIGNATURE_def)
  show ?thesis
    by (cases "getPolicies_loop X pre Map.empty")
       (simp_all add: getPolicies_def getPolicies_loop_append entry del: getPolicies_loop.simps)
qed

theorem getPolicies_aborts_without_map_witness:
  "getPolicies exampleExternals
     (Some ([exampleStored ''Admins'' 3 ''Admins''] @ exampleStored ''Readers'' 7 ''sig'' # []))
     = Inl (Error ''unknown policy type: 7'')
   \<and> getPolicies exampleExternals
     (Some ([exampleStored ''Admins'' 3 ''Admins''] @ exampleStored ''Readers'' 1 ''bad''
            # [exampleStored ''Writers'' 3 ''Writers'']))
     = Inl (Error ''unexpected EOF'')"
proof -
  let ?X = exampleExternals
  let ?pre = "[exampleStored ''Admins'' 3 ''Admins'']"
  let ?cp7 = "\<lparr>ModPolicy = ''Admins'', CPolicy = Some \<lparr>PType = 7, PValue = ''sig''\<rparr>\<rparr>"
  let ?cp1 = "\<lparr>ModPolicy = ''Admins'', CPolicy = Some \<lparr>PType = 1, PValue = ''bad''\<rparr>\<rparr>"
  have pre: "getPolicies_loop ?X ?pre Map.empty
             = Inr [''Admins'' \<mapsto> \<lparr>Type = ImplicitMetaPolicyType, Rule = ''ANY Admins''\<rparr>]"
    by (simp add: exampleStored_def exampleExternals_def Policy_IMPLICIT_META_def
        implicitMetaToString_def ImplicitMetaPolicy_ANY_def)
  have a7: "CPolicy ?cp7 = Some \<lparr>PType = 7, PValue = ''sig''\<rparr>" by simp
  have b7: "(PType \<lparr>PType = 7, PValue = ''sig''\<rparr> = Policy_IMPLICIT_META
              \<and> UnmarshalImplicitMeta ?X (PValue \<lparr>PType = 7, PValue = ''sig''\<rparr>) = Inl ''unknown policy type: 7'')
         \<or> (PType \<lparr>PType = 7, PValue = ''sig''\<rparr> = Policy_SIGNATURE
              \<and> UnmarshalSignature ?X (PValue \<lparr>PType = 7, PValue = ''sig''\<rparr>) = Inl ''unknown policy type: 7'')
         \<or> (PType \<lparr>PType = 7, PValue = ''sig''\<rparr> \<noteq> Policy_IMPLICIT_META
              \<and> PType \<lparr>PType = 7, PValue = ''sig''\<rparr> \<noteq> Policy_SIGNATURE
              \<and> ''unknown policy type: 7'' = ''unknown policy type: '' @ Itoa (sint (PType \<lparr>PType = (7::int32), PValue = ''sig''\<rparr>)))"
    by (simp add: Policy_IMPLICIT_META_def Policy_SIGNATURE_def Itoa_def decimal.simps digitChar_def)
  have a1: "CPolicy ?cp1 = Some \<lparr>PType = 1, PValue = ''bad''\<rparr>" by simp
  have b1: "(PType \<lparr>PType = 1, PValue = ''bad''\<rparr> = Policy_IMPLICIT_META
              \<and> UnmarshalImplicitMeta ?X (PValue \<lparr>PType = 1, PValue = ''bad''\<rparr>) = Inl ''unexpected EOF'')
         \<or> (PType \<lparr>PType = 1, PValue = ''bad''\<rparr> = Policy_SIGNATURE
              \<and> UnmarshalSignature ?X (PValue \<lparr>PType = 1, PValue = ''bad''\<rparr>) = Inl ''unexpected EOF'')
         \<or> (PType \<lparr>PType = 1, PValue = ''bad''\<rparr> \<noteq> Policy_IMPLICIT_META
              \<and> PType \<lparr>PType = 1, PValue = ''bad''\<rparr> \<noteq> Policy_SIGNATURE
              \<and> ''unexpected EOF'' = ''unknown policy type: '' @ Itoa (sint (PType \<lparr>PType = (1::int32), PValue = ''bad''\<rparr>)))"
    by (simp add: Policy_SIGNATURE_def exampleExternals_def)
  from getPolicies_aborts_without_map [OF a7 b7, of ?pre "''Readers''" "[]"] pre
  have r7: "getPolicies ?X (Some (?pre @ (''Readers'', Some ?cp7) # [])) = Inl (Error ''unknown policy type: 7'')"
    by blast
  from getPolicies_aborts_without_map [OF a1 b1, of ?pre "''Readers''" "[exampleStored ''Writers'' 3 ''Writers'']"] pre
  have r1: "getPolicies ?X (Some (?pre @ (''Readers'', Some ?cp1) # [exampleStored ''Writers'' 3 ''Writers'']))
            = Inl (Error ''unexpected EOF'')"
    by blast
  from r7 r1 show ?thesis
    unfolding exampleStored_def by (intro conjI)
qed

subsection \<open>The getters\<close>

text \<open>When only the last segment is missing, the getter returns the error that names it.\<close>

lemma GetPoliciesForConsortiumOrg_org_absent:
  assumes "ChannelGroup config = Some ch"
    and "map_of (Groups ch) ConsortiumsGroupKey = Some (Some cs)"
    and "map_of (Groups cs) consortiumName = Some (Some cg)"
    and "map_of (Groups cg) orgName = None"
  shows "GetPoliciesForConsortiumOrg X config consortiumName orgName
         = Inl (Error (''consortium org '' @ orgName @ '' does not exist in channel config''))"
  using assms by (simp add: GetPoliciesForConsortiumOrg_def groupsOf_def index_present index_absent)

text \<open>
  C3: the claim is that a getter returns a "does not exist in channel config" error when
  an intermediate group is missing. The code panics there: with a consortiums group
  that has no consortium of the name, \<^verbatim>\<open>GetPoliciesForConsortiumOrg\<close> selects the groups
  of a nil pointer, and so does \<^verbatim>\<open>GetPoliciesForApplicationOrg\<close> in a channel group with
  no application group.
\<close>

theorem getters_missing_segment_panic:
  "GetPoliciesForConsortiumOrg exampleExternals
     \<lparr>ChannelGroup = Some (ConfigGroup [(''Consortiums'', Some (ConfigGroup [] (Some [])))] (Some []))\<rparr>
     ''SampleConsortium'' ''Org1'' = Inl Panic
   \<and> GetPoliciesForApplicationOrg exampleExternals
     \<lparr>ChannelGroup = Some (ConfigGroup [] (Some []))\<rparr> ''Org1'' = Inl Panic"
  by (simp add: GetPoliciesForConsortiumOrg_def GetPoliciesForApplicationOrg_def groupsOf_def
      index_def ConsortiumsGroupKey_def ApplicationGroupKey_def)


end
